theory Spec2Isabelle
  imports Complex_Main
begin

section \<open>Values\<close>

text \<open>
  The library is JavaScript (index.js). Its values are modelled by the primitives the
  option object can hold. A finite number is a real number and its arithmetic is exact:
  the geometry resolver is followed without the rounding error of IEEE doubles, and the
  infinities are outside the model. \<open>NaN\<close> is a value of its own, because
  \<open>parseNumberArg\<close> tests for it.
\<close>

datatype jsval =
    JUndefined
  | JNull
  | JBool bool
  | JNumber real
  | JNaN
  | JString string

text \<open>ToBoolean, as used by \<open>||\<close>, \<open>!\<close> and \<open>if\<close>.\<close>

fun truthy :: "jsval \<Rightarrow> bool" where
  "truthy JUndefined = False"
| "truthy JNull = False"
| "truthy (JBool b) = b"
| "truthy (JNumber x) = (x \<noteq> 0)"
| "truthy JNaN = False"
| "truthy (JString s) = (s \<noteq> [])"

text \<open>
  An object literal is a function from property names to values; a property that is not
  set reads \<open>undefined\<close>. The options argument may also be \<open>null\<close> or missing
  altogether (\<open>None\<close>); the spread \<open>{ ...opts }\<close> then gives the empty object.
\<close>

type_synonym object = "string \<Rightarrow> jsval"

definition empty_object :: object where
  "empty_object = (\<lambda>k. JUndefined)"

definition spread :: "object option \<Rightarrow> object" where
  "spread opts = (case opts of None \<Rightarrow> empty_object | Some ob \<Rightarrow> ob)"

text \<open>The object literal \<open>{ k1: v1, ..., kn: vn }\<close>.\<close>

definition literal :: "(string \<times> jsval) list \<Rightarrow> object" where
  "literal kvs = (\<lambda>k. case map_of kvs k of None \<Rightarrow> JUndefined | Some v \<Rightarrow> v)"

text \<open>\<open>Math.round\<close> rounds to the nearest integer, a half towards plus infinity.\<close>

definition Math_round :: "real \<Rightarrow> real" where
  "Math_round x = of_int \<lfloor>x + 1 / 2\<rfloor>"

section \<open>Strings\<close>

text \<open>
  \<open>toLowerCase\<close> on the ASCII letters (a \<open>string\<close> here is a list of bytes), and
  \<open>includes\<close> (here \<open>str_includes\<close>), the test for a contiguous substring.
\<close>

definition lower_char :: "char \<Rightarrow> char" where
  "lower_char c =
     (case map_of (zip ''ABCDEFGHIJKLMNOPQRSTUVWXYZ'' ''abcdefghijklmnopqrstuvwxyz'') c of
        None \<Rightarrow> c
      | Some l \<Rightarrow> l)"

definition toLowerCase :: "string \<Rightarrow> string" where
  "toLowerCase s = map lower_char s"

fun startsWith :: "string \<Rightarrow> string \<Rightarrow> bool" where
  "startsWith s [] = True"
| "startsWith [] (p # ps) = False"
| "startsWith (c # cs) (p # ps) = (c = p \<and> startsWith cs ps)"

fun str_includes :: "string \<Rightarrow> string \<Rightarrow> bool" where
  "str_includes [] p = (p = [])"
| "str_includes (c # cs) p = (startsWith (c # cs) p \<or> str_includes cs p)"

section \<open>Option normalizer\<close>

text \<open>
  \<open>getYGravity\<close> (index.js 228-238) and \<open>getXGravity\<close> (246-256): the argument is
  the raw \<open>gravity\<close> property, of any type.
\<close>

definition getYGravity :: "jsval \<Rightarrow> real" where
  "getYGravity gravity =
     (case gravity of
        JString g \<Rightarrow>
          (let g' = toLowerCase g in
           if str_includes g' ''north'' \<or> str_includes g' ''top'' then - 1
           else if str_includes g' ''south'' \<or> str_includes g' ''bottom'' then 1
           else 0)
      | _ \<Rightarrow> 0)"

definition getXGravity :: "jsval \<Rightarrow> real" where
  "getXGravity gravity =
     (case gravity of
        JString g \<Rightarrow>
          (let g' = toLowerCase g in
           if str_includes g' ''east'' \<or> str_includes g' ''left'' then - 1
           else if str_includes g' ''west'' \<or> str_includes g' ''right'' then 1
           else 0)
      | _ \<Rightarrow> 0)"

text \<open>
  \<open>Number(n)\<close> on a primitive; \<open>None\<close> stands for \<open>NaN\<close>. The conversion of a
  string to a number is the host's (ECMAScript StringToNumber) and is a parameter.
\<close>

fun Number :: "(string \<Rightarrow> real option) \<Rightarrow> jsval \<Rightarrow> real option" where
  "Number s2n JUndefined = None"
| "Number s2n JNull = Some 0"
| "Number s2n (JBool b) = Some (if b then 1 else 0)"
| "Number s2n (JNumber x) = Some x"
| "Number s2n JNaN = None"
| "Number s2n (JString s) = s2n s"

text \<open>
  \<open>parseNumberArg\<close> (264-267): \<open>n != null && Number(n)\<close> is \<open>false\<close> for
  \<open>null\<close> and \<open>undefined\<close>, and \<open>false\<close> is not of type number.
\<close>

definition parseNumberArg :: "(string \<Rightarrow> real option) \<Rightarrow> jsval \<Rightarrow> real \<Rightarrow> real" where
  "parseNumberArg s2n n defaultValue =
     (if n = JUndefined \<or> n = JNull then defaultValue
      else case Number s2n n of None \<Rightarrow> defaultValue | Some x \<Rightarrow> x)"

text \<open>\<open>typeSupportsAlpha\<close> (275-277): strict inequality with the string.\<close>

definition typeSupportsAlpha :: "jsval \<Rightarrow> bool" where
  "typeSupportsAlpha t = (t \<noteq> JString ''image/jpeg'')"

text \<open>
  The canonical options. \<open>validateOptions\<close> builds an object of ten properties;
  \<open>renderToCanvas\<close> reads an eleventh, \<open>background\<close>, which is the last field here.
\<close>

record options =
  type :: jsval
  alpha :: bool
  width :: real
  height :: real
  quality :: real
  xGravity :: real
  yGravity :: real
  fit :: string
  noEnlarge :: bool
  smoothen :: bool
  background :: jsval

text \<open>
  \<open>validateOptions\<close> (285-299). The literal it returns sets no \<open>background\<close>
  property, so that property of the result reads \<open>undefined\<close>.
\<close>

definition validateOptions :: "(string \<Rightarrow> real option) \<Rightarrow> object option \<Rightarrow> options" where
  "validateOptions s2n opts0 =
     (let opts = spread opts0 in
      \<lparr> type = (if truthy (opts ''type'') then opts ''type'' else JString ''image/jpeg''),
        alpha = typeSupportsAlpha (opts ''type''),
        width = max (Math_round (parseNumberArg s2n (opts ''width'') 0)) 0,
        height = max (Math_round (parseNumberArg s2n (opts ''height'') 0)) 0,
        quality = min (max (parseNumberArg s2n (opts ''quality'') 1) 0) 1,
        xGravity = getYGravity (opts ''gravity''),
        yGravity = getXGravity (opts ''gravity''),
        fit = (case opts ''fit'' of
                 JString f \<Rightarrow> if length f > 0 then toLowerCase f else ''stretch''
               | _ \<Rightarrow> ''stretch''),
        noEnlarge = (opts ''noEnlarge'' = JBool True),
        smoothen = (opts ''smoothen'' = JBool True),
        background = JUndefined \<rparr>)"

section \<open>Drawables and errors\<close>

text \<open>
  Every error the library raises itself is a \<open>ResizeError\<close> with a message; an
  error value that comes from the host (a DOM exception, an error event of the worker,
  the error a worker posts back) is a \<open>HostError\<close>.
\<close>

datatype error = ResizeError string | HostError string

text \<open>
  The drawables of \<open>isDrawable\<close> (601-609) whose dimensions are numbers; the
  dimensions are the properties \<open>getImageDimensions\<close> reads for that class and the
  last argument of an opaque drawable names its pixels. An \<open>SVGImageElement\<close>, whose
  \<open>width\<close> is no number, is not modelled. A canvas is its two size attributes, the
  \<open>alpha\<close> attribute of its context and the calls made on that context, in order.
  \<open>jsnum\<close> is a number with the infinities and \<open>NaN\<close>, for the one place where
  the code can divide by zero (the blur radius, below).
\<close>

datatype jsnum = Fin real | PosInf | NegInf | NotANumber

datatype drawable =
    HTMLImageElement nat nat nat
  | HTMLVideoElement nat nat nat
  | VideoFrame nat nat nat
  | ImageBitmap nat nat nat
  | OffscreenCanvas nat nat nat
  | HTMLCanvasElement canvas
and canvas =
    Canvas (canvas_width: nat) (canvas_height: nat) (canvas_alpha: bool) (calls: "ctxcall list")
and ctxcall =
    SetImageSmoothingQuality string
  | SetFilterBlur jsnum
  | SetFillStyle jsval
  | FillRect real real real real
  | DrawImageAt drawable real real
  | DrawImageScaled drawable real real real real
  | PutImageData nat real real

text \<open>
  \<open>getImageDimensions\<close> (568-590). The last branch is \<open>img.width || 0\<close>, which
  is the width itself, zero included.
\<close>

fun getImageDimensions :: "drawable \<Rightarrow> real \<times> real" where
  "getImageDimensions (HTMLImageElement naturalWidth naturalHeight p) =
     (of_nat naturalWidth, of_nat naturalHeight)"
| "getImageDimensions (HTMLVideoElement videoWidth videoHeight p) =
     (of_nat videoWidth, of_nat videoHeight)"
| "getImageDimensions (VideoFrame displayWidth displayHeight p) =
     (of_nat displayWidth, of_nat displayHeight)"
| "getImageDimensions (ImageBitmap w h p) =
     (if of_nat w \<noteq> (0::real) then of_nat w else 0, if of_nat h \<noteq> (0::real) then of_nat h else 0)"
| "getImageDimensions (OffscreenCanvas w h p) =
     (if of_nat w \<noteq> (0::real) then of_nat w else 0, if of_nat h \<noteq> (0::real) then of_nat h else 0)"
| "getImageDimensions (HTMLCanvasElement c) =
     (if of_nat (canvas_width c) \<noteq> (0::real) then of_nat (canvas_width c) else 0,
      if of_nat (canvas_height c) \<noteq> (0::real) then of_nat (canvas_height c) else 0)"

section \<open>Fit geometry resolver\<close>

text \<open>The object \<open>validateImageFit\<close> returns.\<close>

record geometry =
  imageWidth :: real
  imageHeight :: real
  cw :: real
  ch :: real
  iw :: real
  ih :: real
  ix :: real
  iy :: real

text \<open>
  The mutable locals \<open>cw\<close>, \<open>ch\<close>, \<open>iw\<close>, \<open>ih\<close> and \<open>fit\<close> of
  \<open>validateImageFit\<close> (309-397), threaded through the blocks of its body. Each block
  below is one commented block of the source, under the name of what it does.
\<close>

record locals =
  v_cw :: real
  v_ch :: real
  v_iw :: real
  v_ih :: real
  v_fit :: string

text \<open>Lines 318-322: the initial values.\<close>

definition initLocals :: "real \<Rightarrow> real \<Rightarrow> options \<Rightarrow> locals" where
  "initLocals w h opts =
     \<lparr> v_cw = width opts, v_ch = height opts, v_iw = w, v_ih = h, v_fit = fit opts \<rparr>"

text \<open>Lines 326-336: a missing width or height is filled in by the aspect ratio.\<close>

definition fillMissing :: "locals \<Rightarrow> locals" where
  "fillMissing v =
     (if v_cw v = 0 \<or> v_ch v = 0 then
        (let v1 = v\<lparr> v_fit := ''stretch'' \<rparr> in
         if v_cw v1 \<noteq> 0 then v1\<lparr> v_ch := (v_cw v1 / v_iw v1) * v_ih v1 \<rparr>
         else if v_ch v1 \<noteq> 0 then v1\<lparr> v_cw := (v_ch v1 / v_ih v1) * v_iw v1 \<rparr>
         else v1\<lparr> v_cw := v_iw v1, v_ch := v_ih v1 \<rparr>)
      else v)"

text \<open>Lines 340-351: the size of the placed image.\<close>

definition placeImage :: "locals \<Rightarrow> locals" where
  "placeImage v =
     (if v_fit v = ''outside'' \<or> v_fit v = ''cover'' then
        (let scale = max (v_cw v / v_iw v) (v_ch v / v_ih v) in
         v\<lparr> v_iw := v_iw v * scale, v_ih := v_ih v * scale \<rparr>)
      else if v_fit v = ''inside'' \<or> v_fit v = ''contain'' then
        (let scale = min (v_cw v / v_iw v) (v_ch v / v_ih v) in
         v\<lparr> v_iw := v_iw v * scale, v_ih := v_ih v * scale \<rparr>)
      else v\<lparr> v_iw := v_cw v, v_ih := v_ch v \<rparr>)"

text \<open>Lines 352-355: the canvas takes the size of the image.\<close>

definition snapCanvas :: "locals \<Rightarrow> locals" where
  "snapCanvas v =
     (if v_fit v = ''outside'' \<or> v_fit v = ''inside'' then v\<lparr> v_cw := v_iw v, v_ch := v_ih v \<rparr>
      else v)"

text \<open>Lines 359-367: no enlargement; \<open>w\<close> and \<open>h\<close> are the source's dimensions.\<close>

definition shrinkToSource :: "real \<Rightarrow> real \<Rightarrow> options \<Rightarrow> locals \<Rightarrow> locals" where
  "shrinkToSource w h opts v =
     (if noEnlarge opts then
        (let scale = min (w / v_iw v) (h / v_ih v) in
         if scale < 1 then
           v\<lparr> v_iw := v_iw v * scale, v_ih := v_ih v * scale,
              v_cw := v_cw v * scale, v_ch := v_ch v * scale \<rparr>
         else v)
      else v)"

text \<open>Lines 371-382 and 390-396: the offsets, the rounding and the result.\<close>

definition roundedGeometry :: "real \<Rightarrow> real \<Rightarrow> options \<Rightarrow> locals \<Rightarrow> geometry" where
  "roundedGeometry w h opts v =
     (let ix0 = (v_cw v - v_iw v) * (1 / 2) * (xGravity opts + 1);
          iy0 = (v_ch v - v_ih v) * (1 / 2) * (yGravity opts + 1)
      in \<lparr> imageWidth = w, imageHeight = h,
           cw = Math_round (v_cw v), ch = Math_round (v_ch v),
           iw = Math_round (v_iw v), ih = Math_round (v_ih v),
           ix = Math_round ix0, iy = Math_round iy0 \<rparr>)"

text \<open>Lines 318-382 together: everything between the two checks.\<close>

definition resolveGeometry :: "real \<Rightarrow> real \<Rightarrow> options \<Rightarrow> geometry" where
  "resolveGeometry w h opts =
     roundedGeometry w h opts
       (shrinkToSource w h opts (snapCanvas (placeImage (fillMissing (initLocals w h opts)))))"

text \<open>
  \<open>validateImageFit\<close> (309-397): the check of the source's dimensions (314-316,
  \<open>!width || !height\<close> on numbers), the resolution, and the check of the ICO size
  (386-388). A \<open>throw\<close> is the left injection.
\<close>

definition validateImageFit :: "drawable \<Rightarrow> options \<Rightarrow> error + geometry" where
  "validateImageFit img opts =
     (case getImageDimensions img of (w, h) \<Rightarrow>
        if w = 0 \<or> h = 0 then Inl (ResizeError ''Image dimensions could not be determined'')
        else
          (let g = resolveGeometry w h opts in
           if type opts = JString ''image/vnd.microsoft.icon'' \<and> (cw g > 256 \<or> ch g > 256)
           then Inl (ResizeError ''Exceeds max ICO size (256x256)'')
           else Inr g))"

text \<open>The four fit modes that \<open>validateImageFit\<close> tests for by name.\<close>

definition known_fit :: "string \<Rightarrow> bool" where
  "known_fit f = (f = ''cover'' \<or> f = ''outside'' \<or> f = ''contain'' \<or> f = ''inside'')"

section \<open>Smoothing pre-pass and direct rendering\<close>

text \<open>
  What the library uses of the browser: the conversion of strings to numbers, whether
  a 2d context has \<open>imageSmoothingQuality\<close> and \<open>filter\<close>, whether
  \<open>OffscreenCanvas\<close> and \<open>createImageBitmap\<close> are defined, and the encoder \<open>canvas.toBlob\<close>, which throws
  (\<open>Inl\<close>), calls back with \<open>null\<close> (\<open>Inr None\<close>) or calls back with a blob.
  A blob is its bytes.
\<close>

type_synonym blob = "nat list"

record host =
  StringToNumber :: "string \<Rightarrow> real option"
  has_imageSmoothingQuality :: bool
  has_filter :: bool
  has_OffscreenCanvas :: bool
  has_createImageBitmap :: bool
  toBlob :: "canvas \<Rightarrow> jsval \<Rightarrow> real \<Rightarrow> error + blob option"

text \<open>
  Assigning a number to \<open>canvas.width\<close> or \<open>canvas.height\<close>: the value is
  truncated to an unsigned 32-bit integer, and the attribute falls back to its default
  above \<open>2^31 - 1\<close>. For an integer from 0 to \<open>2^31 - 1\<close> it is that integer.
\<close>

definition setDimension :: "nat \<Rightarrow> real \<Rightarrow> nat" where
  "setDimension dflt x =
     (let n = (if 0 \<le> x then \<lfloor>x\<rfloor> else - \<lfloor>- x\<rfloor>) mod 4294967296
      in if n > 2147483647 then dflt else nat n)"

text \<open>
  Division, \<open>Math.min\<close>, \<open>(m - 1) * 0.375\<close> and \<open>steps <= 0\<close> on numbers
  that may be infinite (the sign of a zero is not followed: a zero divisor is \<open>+0\<close>).
\<close>

definition js_div :: "real \<Rightarrow> real \<Rightarrow> jsnum" where
  "js_div x y =
     (if y \<noteq> 0 then Fin (x / y)
      else if 0 < x then PosInf else if x < 0 then NegInf else NotANumber)"

fun Math_min :: "jsnum \<Rightarrow> jsnum \<Rightarrow> jsnum" where
  "Math_min NotANumber y = NotANumber"
| "Math_min x NotANumber = NotANumber"
| "Math_min NegInf y = NegInf"
| "Math_min x NegInf = NegInf"
| "Math_min PosInf y = y"
| "Math_min x PosInf = x"
| "Math_min (Fin x) (Fin y) = Fin (min x y)"

fun blurSteps :: "jsnum \<Rightarrow> jsnum" where
  "blurSteps (Fin m) = Fin ((m - 1) * (375 / 1000))"
| "blurSteps PosInf = PosInf"
| "blurSteps NegInf = NegInf"
| "blurSteps NotANumber = NotANumber"

fun le_zero :: "jsnum \<Rightarrow> bool" where
  "le_zero (Fin x) = (x \<le> 0)"
| "le_zero PosInf = False"
| "le_zero NegInf = True"
| "le_zero NotANumber = False"

text \<open>\<open>getBlurredImage\<close> (408-426) and \<open>getSteppedImage\<close> (434-440).\<close>

definition getBlurredImage :: "drawable \<Rightarrow> geometry \<Rightarrow> options \<Rightarrow> drawable" where
  "getBlurredImage img g opts =
     (let steps = blurSteps (Math_min (js_div (imageWidth g) (iw g)) (js_div (imageHeight g) (ih g)))
      in if le_zero steps then img
         else HTMLCanvasElement
                (Canvas (setDimension 300 (imageWidth g)) (setDimension 150 (imageHeight g)) True
                   [SetFilterBlur steps, DrawImageAt img 0 0]))"

definition getSteppedImage :: "drawable \<Rightarrow> geometry \<Rightarrow> options \<Rightarrow> drawable" where
  "getSteppedImage img g opts = img"

text \<open>
  \<open>renderToCanvas\<close> (449-484): the calls on the new canvas's context, in the order
  of the source, and the image that is drawn.
\<close>

definition renderToCanvas :: "host \<Rightarrow> drawable \<Rightarrow> geometry \<Rightarrow> options \<Rightarrow> canvas" where
  "renderToCanvas hst img g opts =
     (let quality_calls =
            (if smoothen opts \<and> has_imageSmoothingQuality hst
             then [SetImageSmoothingQuality ''high''] else []);
          img1 =
            (if smoothen opts then
               (if has_filter hst then getBlurredImage img g opts else getSteppedImage img g opts)
             else img);
          fill_calls =
            (if truthy (background opts)
             then [SetFillStyle (background opts), FillRect 0 0 (cw g) (ch g)] else [])
      in Canvas (setDimension 300 (cw g)) (setDimension 150 (ch g)) (alpha opts)
           (quality_calls @ fill_calls @ [DrawImageScaled img1 (ix g) (iy g) (iw g) (ih g)]))"

text \<open>
  A promise is resolved, rejected, or never settled. \<open>getBlobFromCanvas\<close> (511-521):
  an exception of \<open>toBlob\<close> inside the executor rejects the promise.
\<close>

datatype 'a promise = Resolved 'a | Rejected error | Pending

definition getBlobFromCanvas :: "host \<Rightarrow> canvas \<Rightarrow> jsval \<Rightarrow> real \<Rightarrow> blob promise" where
  "getBlobFromCanvas hst canvasEl t q =
     (case toBlob hst canvasEl t q of
        Inl e \<Rightarrow> Rejected e
      | Inr None \<Rightarrow> Rejected (ResizeError ''Could not create Blob'')
      | Inr (Some b) \<Rightarrow> Resolved b)"

section \<open>Drawable resolver\<close>

text \<open>
  The image argument of the public operation: a falsy value other than the empty
  string (\<open>SNull\<close>), a drawable, a \<open>Blob\<close> (its size and its content), an
  \<open>ImageData\<close> (its dimensions and its content), a string, or any other value.
\<close>

datatype source =
    SNull
  | SDrawable drawable
  | SBlob nat nat
  | SImageData nat nat nat
  | SString string
  | SOther

text \<open>
  What the environment answers during one call, in the order the call may ask:
  \<open>createImageBitmap\<close> on a blob or an image data, the events of an \<open>Image\<close>
  that is loading, the creation of the worker (a thrown error or a new handle), the
  worker's answer to the self-test, \<open>createImageBitmap\<close> on the drawable, and the
  worker's answer to the render request.
\<close>

datatype load_event = Onload nat nat nat | Onerror | NoEvent

record outcomes =
  decoded :: "drawable promise"
  loaded :: load_event
  spawn :: "error + nat"
  probe :: "unit promise"
  bitmap :: "drawable promise"
  reply :: "blob promise"

text \<open>\<open>loadUrlIntoImage\<close> (529-545) and \<open>loadBlobIntoImage\<close> (553-560).\<close>

definition loadUrlIntoImage :: "outcomes \<Rightarrow> string \<Rightarrow> drawable promise" where
  "loadUrlIntoImage oc url =
     (case loaded oc of
        Onload naturalWidth naturalHeight p \<Rightarrow>
          if naturalWidth > 0 \<and> naturalHeight > 0
          then Resolved (HTMLImageElement naturalWidth naturalHeight p)
          else Rejected (ResizeError ''Image is empty'')
      | Onerror \<Rightarrow> Rejected (ResizeError ''Image could not be loaded'')
      | NoEvent \<Rightarrow> Pending)"

definition loadBlobIntoImage :: "outcomes \<Rightarrow> nat \<Rightarrow> drawable promise" where
  "loadBlobIntoImage oc p = loadUrlIntoImage oc ''blob:''"

text \<open>\<open>loadImageDataIntoCanvas\<close> (492-503).\<close>

definition loadImageDataIntoCanvas :: "nat \<Rightarrow> nat \<Rightarrow> nat \<Rightarrow> options \<Rightarrow> drawable" where
  "loadImageDataIntoCanvas w h p opts =
     HTMLCanvasElement
       (Canvas (setDimension 300 (of_nat w)) (setDimension 150 (of_nat h)) (alpha opts)
          [PutImageData p 0 0])"

text \<open>\<open>validateImageAndMakeDrawable\<close> (618-656).\<close>

definition validateImageAndMakeDrawable ::
    "host \<Rightarrow> outcomes \<Rightarrow> source \<Rightarrow> options \<Rightarrow> drawable promise" where
  "validateImageAndMakeDrawable hst oc img opts =
     (case img of
        SNull \<Rightarrow> Rejected (ResizeError ''Image is required'')
      | SDrawable d \<Rightarrow> Resolved d
      | SBlob sz p \<Rightarrow>
          if sz = 0 then Rejected (ResizeError ''Blob is empty'')
          else if has_createImageBitmap hst then decoded oc
          else loadBlobIntoImage oc p
      | SImageData w h p \<Rightarrow>
          if has_createImageBitmap hst then decoded oc
          else Resolved (loadImageDataIntoCanvas w h p opts)
      | SString url \<Rightarrow>
          if url = [] then Rejected (ResizeError ''Image is required'')
          else loadUrlIntoImage oc url
      | SOther \<Rightarrow> Rejected (ResizeError ''Cannot make drawable''))"

section \<open>Worker channel and the public operation\<close>

text \<open>
  The module's globals \<open>_worker\<close>, \<open>_workerError\<close> and \<open>_messageId\<close>
  (109, 110, 175), and, as a trace of what the module did to its environment, the
  number of calls of \<open>createWebWorker\<close> and the ids of the render requests posted.
  Calls of the public operation are followed one after the other: each runs until its
  promise settles (or is known never to settle) before the next begins.
\<close>

record state =
  worker :: "nat option"
  workerError :: "error option"
  messageId :: nat
  spawnAttempts :: nat
  posted :: "nat list"

text \<open>
  \<open>loadWebWorker\<close> (111-166). The executor assigns \<open>_worker\<close> as soon as the worker
  is created, before the self-test is answered; an exception of \<open>createWebWorker\<close>
  inside the executor rejects the promise.
\<close>

definition loadWebWorker :: "outcomes \<Rightarrow> state \<Rightarrow> nat promise \<times> state" where
  "loadWebWorker oc st =
     (if workerError st \<noteq> None then (Rejected (ResizeError ''Worker is not loaded''), st)
      else case worker st of
        Some w \<Rightarrow> (Resolved w, st)
      | None \<Rightarrow>
          (let st1 = st\<lparr> spawnAttempts := spawnAttempts st + 1 \<rparr> in
           case spawn oc of
             Inl err \<Rightarrow> (Rejected err, st1\<lparr> workerError := Some err \<rparr>)
           | Inr w \<Rightarrow>
               (let st2 = st1\<lparr> worker := Some w \<rparr> in
                case probe oc of
                  Resolved u \<Rightarrow> (Resolved w, st2)
                | Rejected err \<Rightarrow> (Rejected err, st2\<lparr> workerError := Some err \<rparr>)
                | Pending \<Rightarrow> (Pending, st2))))"

text \<open>
  \<open>renderToBlobWithOffscreenCanvas\<close> (176-220). The worker's code runs in another
  thread; what it answers is an outcome.
\<close>

definition renderToBlobWithOffscreenCanvas ::
    "host \<Rightarrow> outcomes \<Rightarrow> state \<Rightarrow> drawable \<Rightarrow> geometry \<Rightarrow> options \<Rightarrow> blob promise \<times> state" where
  "renderToBlobWithOffscreenCanvas hst oc st img g opts =
     (case loadWebWorker oc st of
        (Rejected err, st1) \<Rightarrow> (Rejected err, st1)
      | (Pending, st1) \<Rightarrow> (Pending, st1)
      | (Resolved w, st1) \<Rightarrow>
          (case (if has_createImageBitmap hst then bitmap oc
                 else Rejected (HostError ''ReferenceError'')) of
             Rejected err \<Rightarrow> (Rejected err, st1)
           | Pending \<Rightarrow> (Pending, st1)
           | Resolved bmp \<Rightarrow>
               (let ident = messageId st1;
                    st2 = st1\<lparr> messageId := messageId st1 + 1, posted := posted st1 @ [ident] \<rparr>
                in (reply oc, st2))))"

text \<open>Lines 684-685: the direct strategy.\<close>

definition renderDirect :: "host \<Rightarrow> drawable \<Rightarrow> geometry \<Rightarrow> options \<Rightarrow> blob promise" where
  "renderDirect hst img g opts =
     getBlobFromCanvas hst (renderToCanvas hst img g opts) (type opts) (quality opts)"

text \<open>\<open>resizeImageToBlob\<close> (665-687).\<close>

definition resizeImageToBlob ::
    "host \<Rightarrow> outcomes \<Rightarrow> state \<Rightarrow> source \<Rightarrow> object option \<Rightarrow> blob promise \<times> state" where
  "resizeImageToBlob hst oc st img0 opts0 =
     (let opts = validateOptions (StringToNumber hst) opts0 in
      case validateImageAndMakeDrawable hst oc img0 opts of
        Rejected err \<Rightarrow> (Rejected err, st)
      | Pending \<Rightarrow> (Pending, st)
      | Resolved img \<Rightarrow>
          (case validateImageFit img opts of
             Inl err \<Rightarrow> (Rejected err, st)
           | Inr g \<Rightarrow>
               if has_OffscreenCanvas hst \<and> workerError st = None then
                 (case renderToBlobWithOffscreenCanvas hst oc st img g opts of
                    (Resolved b, st1) \<Rightarrow> (Resolved b, st1)
                  | (Pending, st1) \<Rightarrow> (Pending, st1)
                  | (Rejected err, st1) \<Rightarrow> (renderDirect hst img g opts, st1))
               else (renderDirect hst img g opts, st)))"

text \<open>
  The three states of the worker channel, read off the two globals, and a run of
  successive calls.
\<close>

datatype channel = Uninitialized | Ready nat | PermanentlyFailed error

definition channelOf :: "state \<Rightarrow> channel" where
  "channelOf st =
     (case workerError st of
        Some err \<Rightarrow> PermanentlyFailed err
      | None \<Rightarrow> (case worker st of None \<Rightarrow> Uninitialized | Some w \<Rightarrow> Ready w))"




section \<open>Values for the examples\<close>

text \<open>
  A conversion of strings to numbers that is right on the strings of decimal digits
  (the empty string is 0), and a browser with every feature and an encoder that writes
  the canvas's size.
\<close>

definition digit :: "char \<Rightarrow> nat option" where
  "digit c = map_of (zip ''0123456789'' [0, 1, 2, 3, 4, 5, 6, 7, 8, 9]) c"

fun decimal :: "nat \<Rightarrow> string \<Rightarrow> nat option" where
  "decimal acc [] = Some acc"
| "decimal acc (c # cs) =
     (case digit c of None \<Rightarrow> None | Some d \<Rightarrow> decimal (10 * acc + d) cs)"

definition decimalToNumber :: "string \<Rightarrow> real option" where
  "decimalToNumber s = map_option of_nat (decimal 0 s)"

definition sizeEncoder :: "canvas \<Rightarrow> jsval \<Rightarrow> real \<Rightarrow> error + blob option" where
  "sizeEncoder c t q = Inr (Some [canvas_width c, canvas_height c])"

definition browser :: host where
  "browser =
     \<lparr> StringToNumber = decimalToNumber, has_imageSmoothingQuality = True, has_filter = True,
       has_OffscreenCanvas = True, has_createImageBitmap = True, toBlob = sizeEncoder \<rparr>"

text \<open>
  Outcomes of a call: a worker that answers everything, one whose answer to the render
  request is an error, and one whose self-test fails.
\<close>

definition answers :: outcomes where
  "answers =
     \<lparr> decoded = Pending, loaded = NoEvent, spawn = Inr 1, probe = Resolved (),
       bitmap = Resolved (ImageBitmap 200 100 0), reply = Resolved [1, 2, 3] \<rparr>"

definition renderFails :: outcomes where
  "renderFails = answers\<lparr> reply := Rejected (HostError ''DataCloneError'') \<rparr>"


definition initialState :: state where
  "initialState =
     \<lparr> worker = None, workerError = None, messageId = 0, spawnAttempts = 0, posted = [] \<rparr>"

section \<open>Rounding and the source's dimensions\<close>

lemmas geometry_defs =
  validateImageFit_def resolveGeometry_def roundedGeometry_def shrinkToSource_def snapCanvas_def
  placeImage_def fillMissing_def initLocals_def Math_round_def Let_def

lemmas options_defs =
  validateOptions_def spread_def literal_def parseNumberArg_def getYGravity_def getXGravity_def
  toLowerCase_def lower_char_def typeSupportsAlpha_def Math_round_def Let_def

lemma Math_round_int: "x \<in> \<int> \<Longrightarrow> Math_round x = x"
  by (auto simp: Math_round_def elim!: Ints_cases)

lemma Math_round_zero: "Math_round 0 = 0"
  by (simp add: Math_round_def)

lemma Math_round_mono: "x \<le> y \<Longrightarrow> Math_round x \<le> Math_round y"
  by (simp add: Math_round_def floor_mono)

lemma Math_round_le_int: "x \<le> y \<Longrightarrow> y \<in> \<int> \<Longrightarrow> Math_round x \<le> y"
  using Math_round_mono [of x y] by (simp add: Math_round_int)

lemma getImageDimensions_nat: "\<exists>W H. getImageDimensions img = (of_nat W, of_nat H)"
  by (cases img) auto

lemma validateImageFit_Inr:
  assumes "validateImageFit img opts = Inr g"
  obtains W H where "getImageDimensions img = (of_nat W, of_nat H)" "0 < W" "0 < H"
    "g = resolveGeometry (of_nat W) (of_nat H) opts"
proof -
  obtain W H where d: "getImageDimensions img = (of_nat W, of_nat H)"
    using getImageDimensions_nat by blast
  from assms d have "0 < W" "0 < H" "g = resolveGeometry (of_nat W) (of_nat H) opts"
    by (auto simp: validateImageFit_def Let_def split: if_splits)
  with d that show thesis by blast
qed

lemma imageWidth_resolve:
  "imageWidth (resolveGeometry w h opts) = w \<and> imageHeight (resolveGeometry w h opts) = h"
  by (simp add: resolveGeometry_def roundedGeometry_def Let_def)

lemma validateOptions_integral:
  "width (validateOptions s2n raw) \<in> \<int> \<and> height (validateOptions s2n raw) \<in> \<int>
   \<and> 0 \<le> width (validateOptions s2n raw) \<and> 0 \<le> height (validateOptions s2n raw)"
  by (simp add: validateOptions_def Let_def Math_round_def max_def)

section \<open>The blocks of the resolver\<close>

lemma fillMissing_pos:
  assumes "0 < v_iw v" "0 < v_ih v" "0 \<le> v_cw v" "0 \<le> v_ch v"
  shows "0 < v_cw (fillMissing v) \<and> 0 < v_ch (fillMissing v)
         \<and> v_iw (fillMissing v) = v_iw v \<and> v_ih (fillMissing v) = v_ih v"
  using assms by (auto simp: fillMissing_def Let_def)

lemma placeImage_pos:
  assumes "0 < v_iw v" "0 < v_ih v" "0 < v_cw v" "0 < v_ch v"
  shows "0 < v_iw (placeImage v) \<and> 0 < v_ih (placeImage v)"
  using assms by (auto simp: placeImage_def Let_def max_def min_def)

lemma snapCanvas_image: "v_iw (snapCanvas v) = v_iw v \<and> v_ih (snapCanvas v) = v_ih v"
  by (simp add: snapCanvas_def)

lemma shrinkToSource_le:
  assumes "noEnlarge opts" "0 < v_iw v" "0 < v_ih v" "0 < w" "0 < h"
  shows "v_iw (shrinkToSource w h opts v) \<le> w \<and> v_ih (shrinkToSource w h opts v) \<le> h"
proof (cases "min (w / v_iw v) (h / v_ih v) < 1")
  case True
  let ?s = "min (w / v_iw v) (h / v_ih v)"
  have "v_iw v * ?s \<le> v_iw v * (w / v_iw v)"
    using assms by (intro mult_left_mono) auto
  moreover have "v_ih v * ?s \<le> v_ih v * (h / v_ih v)"
    using assms by (intro mult_left_mono) auto
  ultimately show ?thesis
    using True assms by (simp add: shrinkToSource_def Let_def)
next
  case False
  then have "1 \<le> w / v_iw v" "1 \<le> h / v_ih v" by auto
  then have "v_iw v \<le> w" "v_ih v \<le> h"
    using assms by (simp_all add: le_divide_eq)
  then show ?thesis
    using False assms by (simp add: shrinkToSource_def Let_def)
qed

lemma resolveGeometry_noEnlarge:
  assumes "noEnlarge opts" "0 < w" "0 < h" "w \<in> \<int>" "h \<in> \<int>"
    and "0 \<le> width opts" "0 \<le> height opts"
  shows "iw (resolveGeometry w h opts) \<le> w \<and> ih (resolveGeometry w h opts) \<le> h"
proof -
  let ?v0 = "initLocals w h opts"
  let ?v1 = "fillMissing ?v0"
  let ?v2 = "placeImage ?v1"
  let ?v3 = "snapCanvas ?v2"
  have 0: "0 < v_iw ?v0" "0 < v_ih ?v0" "0 \<le> v_cw ?v0" "0 \<le> v_ch ?v0"
    using assms by (simp_all add: initLocals_def)
  have 1: "0 < v_cw ?v1" "0 < v_ch ?v1" "0 < v_iw ?v1" "0 < v_ih ?v1"
    using fillMissing_pos [OF 0] 0 by simp_all
  have 2: "0 < v_iw ?v2" "0 < v_ih ?v2"
    using placeImage_pos [of ?v1] 1 by simp_all
  have 3: "0 < v_iw ?v3" "0 < v_ih ?v3"
    using 2 snapCanvas_image [of ?v2] by simp_all
  have "v_iw (shrinkToSource w h opts ?v3) \<le> w \<and> v_ih (shrinkToSource w h opts ?v3) \<le> h"
    using shrinkToSource_le [OF assms(1) 3 assms(2,3)] .
  then show ?thesis
    using assms(4,5)
    by (simp add: resolveGeometry_def roundedGeometry_def Let_def Math_round_le_int)
qed

text \<open>
  No block divides by zero once the source's dimensions are not zero: HOL's
  \<open>x / 0 = 0\<close> is never what a quotient of the resolver stands for.
\<close>

lemma fillMissing_nonzero:
  assumes "v_iw v \<noteq> 0" "v_ih v \<noteq> 0"
  shows "v_cw (fillMissing v) \<noteq> 0 \<and> v_ch (fillMissing v) \<noteq> 0
       \<and> v_iw (fillMissing v) = v_iw v \<and> v_ih (fillMissing v) = v_ih v"
  using assms by (auto simp: fillMissing_def Let_def)

lemma placeImage_nonzero:
  assumes "v_iw v \<noteq> 0" "v_ih v \<noteq> 0" "v_cw v \<noteq> 0" "v_ch v \<noteq> 0"
  shows "v_iw (placeImage v) \<noteq> 0 \<and> v_ih (placeImage v) \<noteq> 0"
  using assms by (auto simp: placeImage_def Let_def max_def min_def)

lemma divisors_nonzero:
  assumes "w \<noteq> 0" "h \<noteq> 0"
  shows "v_iw (snapCanvas (placeImage (fillMissing (initLocals w h opts)))) \<noteq> 0
       \<and> v_ih (snapCanvas (placeImage (fillMissing (initLocals w h opts)))) \<noteq> 0"
proof -
  let ?v = "initLocals w h opts"
  have 0: "v_iw ?v \<noteq> 0" "v_ih ?v \<noteq> 0"
    using assms by (simp_all add: initLocals_def)
  from fillMissing_nonzero [OF 0] 0
  have "v_iw (placeImage (fillMissing ?v)) \<noteq> 0 \<and> v_ih (placeImage (fillMissing ?v)) \<noteq> 0"
    by (intro placeImage_nonzero) simp_all
  then show ?thesis
    by (simp add: snapCanvas_image)
qed

section \<open>No enlargement\<close>

text \<open>
  Claim C7. When \<open>noEnlarge\<close> is set and the target dimensions are not negative (as
  the normalizer leaves them), a geometry that \<open>validateImageFit\<close> returns has an
  image no wider and no higher than the source: the rounded \<open>iw\<close> is at most the
  source's width and the rounded \<open>ih\<close> at most its height, for every fit mode.
\<close>

theorem noEnlarge_never_enlarges:
  assumes "validateImageFit img opts = Inr g" and "noEnlarge opts"
    and "0 \<le> width opts" and "0 \<le> height opts"
  shows "iw g \<le> fst (getImageDimensions img) \<and> ih g \<le> snd (getImageDimensions img)
       \<and> imageWidth g = fst (getImageDimensions img)
       \<and> imageHeight g = snd (getImageDimensions img)"
proof -
  from assms(1) obtain W H where d: "getImageDimensions img = (of_nat W, of_nat H)"
    and pos: "0 < W" "0 < H" and g: "g = resolveGeometry (of_nat W) (of_nat H) opts"
    by (rule validateImageFit_Inr)
  have "iw g \<le> of_nat W \<and> ih g \<le> of_nat H"
    unfolding g using assms(2-4) pos by (intro resolveGeometry_noEnlarge) simp_all
  then show ?thesis
    by (simp add: d g imageWidth_resolve)
qed

theorem noEnlarge_never_enlarges_witness:
  "validateImageFit (HTMLImageElement 50 50 0)
     \<lparr> type = JString ''image/jpeg'', alpha = False, width = 100, height = 100, quality = 1,
       xGravity = 0, yGravity = 0, fit = ''cover'', noEnlarge = True, smoothen = False,
       background = JUndefined \<rparr>
     = Inr \<lparr> imageWidth = 50, imageHeight = 50, cw = 50, ch = 50, iw = 50, ih = 50,
             ix = 0, iy = 0 \<rparr>
   \<and> iw \<lparr> imageWidth = 50, imageHeight = 50, cw = 50, ch = 50, iw = 50, ih = 50,
          ix = 0, iy = 0 \<rparr>
       \<le> fst (getImageDimensions (HTMLImageElement 50 50 0))"
proof -
  let ?opts = "\<lparr> type = JString ''image/jpeg'', alpha = False, width = 100, height = 100,
       quality = 1, xGravity = 0, yGravity = 0, fit = ''cover'', noEnlarge = True,
       smoothen = False, background = JUndefined \<rparr>"
  have h: "validateImageFit (HTMLImageElement 50 50 0) ?opts
     = Inr \<lparr> imageWidth = 50, imageHeight = 50, cw = 50, ch = 50, iw = 50, ih = 50,
             ix = 0, iy = 0 \<rparr>"
    by (simp add: geometry_defs)
  from noEnlarge_never_enlarges [OF h] h show ?thesis by simp
qed

section \<open>Fit modes that are not tested for\<close>

lemma known_fit_stretch: "\<not> known_fit ''stretch''"
  by (simp add: known_fit_def)

lemma fillMissing_fit:
  "v_fit (fillMissing v) = (if v_cw v = 0 \<or> v_ch v = 0 then ''stretch'' else v_fit v)"
  by (simp add: fillMissing_def Let_def)

lemma placeImage_unknown:
  "\<not> known_fit (v_fit v) \<Longrightarrow> placeImage v = v\<lparr> v_iw := v_cw v, v_ih := v_ch v \<rparr>"
  by (simp add: placeImage_def known_fit_def)

lemma snapCanvas_unknown: "\<not> known_fit (v_fit v) \<Longrightarrow> snapCanvas v = v"
  by (simp add: snapCanvas_def known_fit_def)

lemma fillMissing_unknown: "\<not> known_fit (v_fit v) \<Longrightarrow> \<not> known_fit (v_fit (fillMissing v))"
  by (simp add: fillMissing_fit known_fit_stretch)

lemma fillMissing_set_fit:
  "fillMissing (v\<lparr> v_fit := ''stretch'' \<rparr>) = (fillMissing v)\<lparr> v_fit := ''stretch'' \<rparr>"
  by (simp add: fillMissing_def Let_def)

lemma shrinkToSource_set_fit:
  "shrinkToSource w h opts (v\<lparr> v_fit := s \<rparr>) = (shrinkToSource w h opts v)\<lparr> v_fit := s \<rparr>"
  by (simp add: shrinkToSource_def Let_def)

lemma shrinkToSource_opts_fit:
  "shrinkToSource w h (opts\<lparr> fit := s \<rparr>) v = shrinkToSource w h opts v"
  by (simp add: shrinkToSource_def)

lemma roundedGeometry_set_fit:
  "roundedGeometry w h opts (v\<lparr> v_fit := s \<rparr>) = roundedGeometry w h opts v"
  by (simp add: roundedGeometry_def)

lemma roundedGeometry_opts_fit:
  "roundedGeometry w h (opts\<lparr> fit := s \<rparr>) v = roundedGeometry w h opts v"
  by (simp add: roundedGeometry_def)

lemma initLocals_opts_fit:
  "initLocals w h (opts\<lparr> fit := s \<rparr>) = (initLocals w h opts)\<lparr> v_fit := s \<rparr>"
  by (simp add: initLocals_def)

lemma stretch_stages:
  assumes "\<not> known_fit (v_fit v)"
  shows "snapCanvas (placeImage v) = v\<lparr> v_iw := v_cw v, v_ih := v_ch v \<rparr>"
proof -
  have p: "placeImage v = v\<lparr> v_iw := v_cw v, v_ih := v_ch v \<rparr>"
    using assms by (rule placeImage_unknown)
  have "\<not> known_fit (v_fit (placeImage v))"
    using assms by (simp add: p)
  then have "snapCanvas (placeImage v) = placeImage v"
    by (rule snapCanvas_unknown)
  with p show ?thesis by simp
qed

lemma unknown_stages:
  assumes "\<not> known_fit (v_fit v)"
  shows "snapCanvas (placeImage (fillMissing v))
         = (fillMissing v)\<lparr> v_iw := v_cw (fillMissing v), v_ih := v_ch (fillMissing v) \<rparr>"
  using fillMissing_unknown [OF assms] by (rule stretch_stages)

lemma resolveGeometry_other_fit:
  assumes "\<not> known_fit (fit opts)"
  shows "resolveGeometry w h opts = resolveGeometry w h (opts\<lparr> fit := ''stretch'' \<rparr>)"
proof -
  let ?v = "initLocals w h opts"
  let ?f = "fillMissing ?v"
  have a: "\<not> known_fit (v_fit ?v)"
    using assms by (simp add: initLocals_def)
  have b: "\<not> known_fit (v_fit (?v\<lparr> v_fit := ''stretch'' \<rparr>))"
    by (simp add: known_fit_stretch)
  have 1: "snapCanvas (placeImage ?f) = ?f\<lparr> v_iw := v_cw ?f, v_ih := v_ch ?f \<rparr>"
    using a by (rule unknown_stages)
  have 2: "snapCanvas (placeImage (fillMissing (?v\<lparr> v_fit := ''stretch'' \<rparr>)))
           = (?f\<lparr> v_iw := v_cw ?f, v_ih := v_ch ?f \<rparr>)\<lparr> v_fit := ''stretch'' \<rparr>"
    using unknown_stages [OF b] by (simp add: fillMissing_set_fit)
  show ?thesis
    unfolding resolveGeometry_def initLocals_opts_fit 1 2
      shrinkToSource_opts_fit roundedGeometry_opts_fit shrinkToSource_set_fit
      roundedGeometry_set_fit
    by (rule refl)
qed

lemma shrink_equal:
  assumes "v_iw v = v_cw v \<and> v_ih v = v_ch v"
  shows "v_iw (shrinkToSource w h opts v) = v_cw (shrinkToSource w h opts v)
       \<and> v_ih (shrinkToSource w h opts v) = v_ch (shrinkToSource w h opts v)"
  using assms by (simp add: shrinkToSource_def Let_def)

lemma rounded_equal:
  assumes "v_iw v = v_cw v \<and> v_ih v = v_ch v"
  shows "iw (roundedGeometry w h opts v) = cw (roundedGeometry w h opts v)
       \<and> ih (roundedGeometry w h opts v) = ch (roundedGeometry w h opts v)
       \<and> ix (roundedGeometry w h opts v) = 0 \<and> iy (roundedGeometry w h opts v) = 0"
  using assms by (simp add: roundedGeometry_def Let_def Math_round_zero)

lemma resolveGeometry_stretch:
  assumes "\<not> known_fit (fit opts)"
  shows "iw (resolveGeometry w h opts) = cw (resolveGeometry w h opts)
       \<and> ih (resolveGeometry w h opts) = ch (resolveGeometry w h opts)
       \<and> ix (resolveGeometry w h opts) = 0 \<and> iy (resolveGeometry w h opts) = 0"
proof -
  let ?v = "initLocals w h opts"
  let ?f = "fillMissing ?v"
  let ?s = "?f\<lparr> v_iw := v_cw ?f, v_ih := v_ch ?f \<rparr>"
  have a: "\<not> known_fit (v_fit ?v)"
    using assms by (simp add: initLocals_def)
  have 1: "snapCanvas (placeImage ?f) = ?s"
    using a by (rule unknown_stages)
  have "v_iw ?s = v_cw ?s \<and> v_ih ?s = v_ch ?s" by simp
  then have "v_iw (shrinkToSource w h opts ?s) = v_cw (shrinkToSource w h opts ?s)
       \<and> v_ih (shrinkToSource w h opts ?s) = v_ch (shrinkToSource w h opts ?s)"
    by (rule shrink_equal)
  then show ?thesis
    unfolding resolveGeometry_def 1 by (rule rounded_equal)
qed

lemma resolveGeometry_stretch_canvas:
  assumes "\<not> known_fit (fit opts)"
    and "width opts \<noteq> 0" "height opts \<noteq> 0" "\<not> noEnlarge opts"
  shows "cw (resolveGeometry w h opts) = Math_round (width opts)
       \<and> ch (resolveGeometry w h opts) = Math_round (height opts)"
proof -
  let ?v = "initLocals w h opts"
  let ?f = "fillMissing ?v"
  have a: "\<not> known_fit (v_fit ?v)"
    using assms by (simp add: initLocals_def)
  have 1: "snapCanvas (placeImage ?f) = ?f\<lparr> v_iw := v_cw ?f, v_ih := v_ch ?f \<rparr>"
    using a by (rule unknown_stages)
  have f: "?f = ?v"
    using assms(2,3) by (simp add: fillMissing_def initLocals_def)
  have 2: "snapCanvas (placeImage (fillMissing ?v)) = ?v\<lparr> v_iw := v_cw ?v, v_ih := v_ch ?v \<rparr>"
    using 1 by (simp only: f)
  show ?thesis
    unfolding resolveGeometry_def 2 using assms(4)
    by (simp add: shrinkToSource_def roundedGeometry_def initLocals_def)
qed

lemma toLowerCase_stretch: "toLowerCase ''stretch'' = ''stretch''"
  by (simp add: toLowerCase_def lower_char_def)

lemma validateOptions_set_fit:
  "validateOptions s2n (Some (raw(''fit'' := JString ''stretch'')))
   = (validateOptions s2n (Some raw))\<lparr> fit := ''stretch'' \<rparr>"
  by (simp add: validateOptions_def spread_def Let_def toLowerCase_stretch)

lemma validateOptions_fit:
  "raw ''fit'' = JString f \<Longrightarrow> f \<noteq> [] \<Longrightarrow> fit (validateOptions s2n (Some raw)) = toLowerCase f"
  by (simp add: validateOptions_def spread_def Let_def)

lemma validateImageFit_other_fit:
  assumes "\<not> known_fit (fit opts)"
  shows "validateImageFit img opts = validateImageFit img (opts\<lparr> fit := ''stretch'' \<rparr>)"
proof -
  obtain w h where d: "getImageDimensions img = (w, h)"
    by (cases "getImageDimensions img")
  show ?thesis
    unfolding validateImageFit_def d
    using resolveGeometry_other_fit [OF assms, of w h] by simp
qed

text \<open>
  Claim C10. A \<open>fit\<close> option that is a non-empty string and, in lower case, none of
  \<open>cover\<close>, \<open>outside\<close>, \<open>contain\<close> and \<open>inside\<close> is kept by the normalizer
  (in lower case), and \<open>validateImageFit\<close> then does exactly what it does for
  \<open>stretch\<close>: the same result or the same error; in a geometry it returns the placed
  image has the size of the canvas and the offsets are zero, and when both target
  dimensions are given and \<open>noEnlarge\<close> is off the canvas is the requested target.
\<close>

theorem unknown_fit_is_stretch:
  assumes "raw ''fit'' = JString f" and "f \<noteq> []" and "\<not> known_fit (toLowerCase f)"
  shows "fit (validateOptions s2n (Some raw)) = toLowerCase f
       \<and> validateImageFit img (validateOptions s2n (Some raw))
           = validateImageFit img
               (validateOptions s2n (Some (raw(''fit'' := JString ''stretch''))))
       \<and> (\<forall>g. validateImageFit img (validateOptions s2n (Some raw)) = Inr g \<longrightarrow>
             iw g = cw g \<and> ih g = ch g \<and> ix g = 0 \<and> iy g = 0
             \<and> (width (validateOptions s2n (Some raw)) \<noteq> 0
                  \<and> height (validateOptions s2n (Some raw)) \<noteq> 0
                  \<and> \<not> noEnlarge (validateOptions s2n (Some raw))
                \<longrightarrow> cw g = width (validateOptions s2n (Some raw))
                    \<and> ch g = height (validateOptions s2n (Some raw))))"
proof -
  let ?opts = "validateOptions s2n (Some raw)"
  have fit: "fit ?opts = toLowerCase f"
    using assms(1,2) by (rule validateOptions_fit)
  then have unk: "\<not> known_fit (fit ?opts)"
    using assms(3) by simp
  have same: "validateImageFit img ?opts
      = validateImageFit img (validateOptions s2n (Some (raw(''fit'' := JString ''stretch''))))"
    unfolding validateOptions_set_fit using unk by (rule validateImageFit_other_fit)
  have geo: "iw g = cw g \<and> ih g = ch g \<and> ix g = 0 \<and> iy g = 0
             \<and> (width ?opts \<noteq> 0 \<and> height ?opts \<noteq> 0 \<and> \<not> noEnlarge ?opts
                \<longrightarrow> cw g = width ?opts \<and> ch g = height ?opts)"
    if ok: "validateImageFit img ?opts = Inr g" for g
  proof -
    from ok obtain W H where g: "g = resolveGeometry (of_nat W) (of_nat H) ?opts"
      by (rule validateImageFit_Inr)
    have int: "Math_round (width ?opts) = width ?opts"
      "Math_round (height ?opts) = height ?opts"
      using validateOptions_integral [of s2n "Some raw"] by (simp_all add: Math_round_int)
    show ?thesis
      unfolding g
      using resolveGeometry_stretch [OF unk, of "of_nat W" "of_nat H"]
        resolveGeometry_stretch_canvas [OF unk, of "of_nat W" "of_nat H"] int
      by simp
  qed
  from fit same geo show ?thesis by blast
qed

text \<open>The fit \<open>Fill\<close> on a source of 200 by 100 with a target of 100 by 50.\<close>

theorem unknown_fit_is_stretch_witness:
  "literal [(''fit'', JString ''Fill''), (''width'', JNumber 100), (''height'', JNumber 50)]
       ''fit'' = JString ''Fill''
   \<and> ''Fill'' \<noteq> [] \<and> \<not> known_fit (toLowerCase ''Fill'')
   \<and> fit (validateOptions decimalToNumber
        (Some (literal [(''fit'', JString ''Fill''), (''width'', JNumber 100),
                        (''height'', JNumber 50)])))
       = ''fill''
   \<and> validateImageFit (HTMLImageElement 200 100 0)
        (validateOptions decimalToNumber
          (Some (literal [(''fit'', JString ''Fill''), (''width'', JNumber 100),
                          (''height'', JNumber 50)])))
       = validateImageFit (HTMLImageElement 200 100 0)
        (validateOptions decimalToNumber
          (Some ((literal [(''fit'', JString ''Fill''), (''width'', JNumber 100),
                           (''height'', JNumber 50)])
                   (''fit'' := JString ''stretch''))))
   \<and> validateImageFit (HTMLImageElement 200 100 0)
        (validateOptions decimalToNumber
          (Some (literal [(''fit'', JString ''Fill''), (''width'', JNumber 100),
                          (''height'', JNumber 50)])))
       = Inr \<lparr> imageWidth = 200, imageHeight = 100, cw = 100, ch = 50, iw = 100, ih = 50,
               ix = 0, iy = 0 \<rparr>"
proof -
  let ?raw = "literal [(''fit'', JString ''Fill''), (''width'', JNumber 100),
                       (''height'', JNumber 50)]"
  have h1: "?raw ''fit'' = JString ''Fill''" by (simp add: literal_def)
  have h2: "''Fill'' \<noteq> []" by simp
  have h3: "\<not> known_fit (toLowerCase ''Fill'')"
    by (simp add: known_fit_def toLowerCase_def lower_char_def)
  have l: "toLowerCase ''Fill'' = ''fill''"
    by (simp add: toLowerCase_def lower_char_def)
  have o: "validateOptions decimalToNumber (Some ?raw)
      = \<lparr> type = JString ''image/jpeg'', alpha = True, width = 100, height = 50,
          quality = 1, xGravity = 0, yGravity = 0, fit = ''fill'', noEnlarge = False,
          smoothen = False, background = JUndefined \<rparr>"
    by (simp add: options_defs)
  have r: "validateImageFit (HTMLImageElement 200 100 0) (validateOptions decimalToNumber (Some ?raw))
      = Inr \<lparr> imageWidth = 200, imageHeight = 100, cw = 100, ch = 50, iw = 100, ih = 50,
               ix = 0, iy = 0 \<rparr>"
    unfolding o by (simp add: geometry_defs)
  from unknown_fit_is_stretch [where raw = "?raw" and f = "''Fill''" and s2n = decimalToNumber
      and img = "HTMLImageElement 200 100 0", OF h1 h2 h3] h1 h2 h3 l r
  show ?thesis by simp
qed

section \<open>The size cap of icons\<close>



section \<open>Snapping the canvas\<close>

lemma fillMissing_both: "v_cw v \<noteq> 0 \<Longrightarrow> v_ch v \<noteq> 0 \<Longrightarrow> fillMissing v = v"
  by (simp add: fillMissing_def)

lemma shrinkToSource_keep:
  "\<not> noEnlarge opts \<or> \<not> min (w / v_iw v) (h / v_ih v) < 1 \<Longrightarrow> shrinkToSource w h opts v = v"
  by (auto simp: shrinkToSource_def Let_def)

lemma scale_back:
  assumes "0 < s" "s \<le> 1" "0 < w" "0 < h"
  shows "\<not> min (w / (w * s)) (h / (h * s)) < (1::real)"
proof -
  have "w / (w * s) = 1 / s" "h / (h * s) = 1 / s"
    using assms by simp_all
  moreover have "1 \<le> 1 / s"
    using assms by (simp add: le_divide_eq)
  ultimately show ?thesis by simp
qed

lemma snapped_equal:
  assumes "v_fit v = ''outside'' \<or> v_fit v = ''inside''"
  shows "v_iw (snapCanvas (placeImage v)) = v_cw (snapCanvas (placeImage v))
       \<and> v_ih (snapCanvas (placeImage v)) = v_ch (snapCanvas (placeImage v))"
  using assms by (auto simp: snapCanvas_def placeImage_def Let_def)

lemma resolveGeometry_snapped:
  assumes "fit opts = ''outside'' \<or> fit opts = ''inside''"
    and "width opts \<noteq> 0" "height opts \<noteq> 0"
  shows "cw (resolveGeometry w h opts) = iw (resolveGeometry w h opts)
       \<and> ch (resolveGeometry w h opts) = ih (resolveGeometry w h opts)
       \<and> ix (resolveGeometry w h opts) = 0 \<and> iy (resolveGeometry w h opts) = 0"
proof -
  let ?v = "initLocals w h opts"
  have f: "fillMissing ?v = ?v"
    using assms(2,3) by (intro fillMissing_both) (simp_all add: initLocals_def)
  have "v_fit ?v = ''outside'' \<or> v_fit ?v = ''inside''"
    using assms(1) by (simp add: initLocals_def)
  then have "v_iw (snapCanvas (placeImage ?v)) = v_cw (snapCanvas (placeImage ?v))
       \<and> v_ih (snapCanvas (placeImage ?v)) = v_ch (snapCanvas (placeImage ?v))"
    by (rule snapped_equal)
  then have "v_iw (shrinkToSource w h opts (snapCanvas (placeImage ?v)))
          = v_cw (shrinkToSource w h opts (snapCanvas (placeImage ?v)))
       \<and> v_ih (shrinkToSource w h opts (snapCanvas (placeImage ?v)))
          = v_ch (shrinkToSource w h opts (snapCanvas (placeImage ?v)))"
    by (rule shrink_equal)
  from rounded_equal [OF this, of w h opts] show ?thesis
    unfolding resolveGeometry_def f by simp
qed

lemma contain_stage:
  assumes "v_fit v = ''contain''"
  shows "snapCanvas (placeImage v)
       = v\<lparr> v_iw := v_iw v * min (v_cw v / v_iw v) (v_ch v / v_ih v),
            v_ih := v_ih v * min (v_cw v / v_iw v) (v_ch v / v_ih v) \<rparr>"
  using assms by (simp add: snapCanvas_def placeImage_def Let_def)

lemma cover_stage:
  assumes "v_fit v = ''cover''"
  shows "snapCanvas (placeImage v)
       = v\<lparr> v_iw := v_iw v * max (v_cw v / v_iw v) (v_ch v / v_ih v),
            v_ih := v_ih v * max (v_cw v / v_iw v) (v_ch v / v_ih v) \<rparr>"
  using assms by (simp add: snapCanvas_def placeImage_def Let_def)

lemma rounded_canvas:
  "cw (roundedGeometry w h opts v) = Math_round (v_cw v)
   \<and> ch (roundedGeometry w h opts v) = Math_round (v_ch v)"
  by (simp add: roundedGeometry_def Let_def)

lemma resolveGeometry_contain:
  assumes "fit opts = ''contain''" and "0 < width opts" "0 < height opts" and "0 < w" "0 < h"
    and "\<not> noEnlarge opts \<or> width opts \<le> w \<or> height opts \<le> h"
  shows "cw (resolveGeometry w h opts) = Math_round (width opts)
       \<and> ch (resolveGeometry w h opts) = Math_round (height opts)"
proof -
  let ?v = "initLocals w h opts"
  let ?s = "min (width opts / w) (height opts / h)"
  let ?p = "?v\<lparr> v_iw := w * ?s, v_ih := h * ?s \<rparr>"
  have f: "fillMissing ?v = ?v"
    using assms(2,3) by (intro fillMissing_both) (simp_all add: initLocals_def)
  have p: "snapCanvas (placeImage ?v) = ?p"
    using contain_stage [of ?v] assms(1) by (simp add: initLocals_def)
  have s0: "0 < ?s" using assms(2-5) by simp
  have keep: "\<not> noEnlarge opts \<or> \<not> min (w / v_iw ?p) (h / v_ih ?p) < 1"
  proof (cases "noEnlarge opts")
    case True
    with assms(6) have "width opts \<le> w \<or> height opts \<le> h" by simp
    then have "?s \<le> 1" using assms(4,5) by (auto simp: min_le_iff_disj)
    from scale_back [OF s0 this assms(4,5)] show ?thesis by simp
  qed simp
  have "shrinkToSource w h opts ?p = ?p"
    using keep by (rule shrinkToSource_keep)
  then show ?thesis
    unfolding resolveGeometry_def f p by (simp add: rounded_canvas initLocals_def)
qed

lemma resolveGeometry_cover:
  assumes "fit opts = ''cover''" and "0 < width opts" "0 < height opts" and "0 < w" "0 < h"
    and "\<not> noEnlarge opts \<or> (width opts \<le> w \<and> height opts \<le> h)"
  shows "cw (resolveGeometry w h opts) = Math_round (width opts)
       \<and> ch (resolveGeometry w h opts) = Math_round (height opts)"
proof -
  let ?v = "initLocals w h opts"
  let ?s = "max (width opts / w) (height opts / h)"
  let ?p = "?v\<lparr> v_iw := w * ?s, v_ih := h * ?s \<rparr>"
  have f: "fillMissing ?v = ?v"
    using assms(2,3) by (intro fillMissing_both) (simp_all add: initLocals_def)
  have p: "snapCanvas (placeImage ?v) = ?p"
    using cover_stage [of ?v] assms(1) by (simp add: initLocals_def)
  have s0: "0 < ?s" using assms(2-5) by (simp add: less_max_iff_disj)
  have keep: "\<not> noEnlarge opts \<or> \<not> min (w / v_iw ?p) (h / v_ih ?p) < 1"
  proof (cases "noEnlarge opts")
    case True
    with assms(6) have "width opts \<le> w \<and> height opts \<le> h" by simp
    then have "?s \<le> 1" using assms(4,5) by simp
    from scale_back [OF s0 this assms(4,5)] show ?thesis by simp
  qed simp
  have "shrinkToSource w h opts ?p = ?p"
    using keep by (rule shrinkToSource_keep)
  then show ?thesis
    unfolding resolveGeometry_def f p by (simp add: rounded_canvas initLocals_def)
qed

text \<open>
  Claim C5, as amended. For a source with dimensions and positive integer target
  dimensions: with fit \<open>outside\<close> or \<open>inside\<close> the canvas has the size of the placed
  image and the offsets are zero; with fit \<open>contain\<close> or \<open>cover\<close> the canvas is
  exactly the requested target size whenever \<open>noEnlarge\<close> does not shrink it, that is
  when \<open>noEnlarge\<close> is off or the placed image is no larger than the source (for
  \<open>contain\<close>: the target is no wider or no higher than the source; for \<open>cover\<close>:
  neither wider nor higher).
\<close>

theorem canvas_snapped_or_kept:
  assumes "validateImageFit img opts = Inr g"
    and "0 < width opts" and "0 < height opts"
    and "width opts \<in> \<int>" and "height opts \<in> \<int>"
  shows "(fit opts = ''outside'' \<or> fit opts = ''inside'' \<longrightarrow>
            cw g = iw g \<and> ch g = ih g \<and> ix g = 0 \<and> iy g = 0)
       \<and> (fit opts = ''contain''
            \<and> (\<not> noEnlarge opts \<or> width opts \<le> imageWidth g \<or> height opts \<le> imageHeight g) \<longrightarrow>
            cw g = width opts \<and> ch g = height opts)
       \<and> (fit opts = ''cover''
            \<and> (\<not> noEnlarge opts \<or> (width opts \<le> imageWidth g \<and> height opts \<le> imageHeight g)) \<longrightarrow>
            cw g = width opts \<and> ch g = height opts)"
proof -
  from assms(1) obtain W H where pos: "0 < W" "0 < H"
    and g: "g = resolveGeometry (of_nat W) (of_nat H) opts"
    by (rule validateImageFit_Inr)
  have wh: "imageWidth g = of_nat W" "imageHeight g = of_nat H"
    by (simp_all add: g imageWidth_resolve)
  have int: "Math_round (width opts) = width opts" "Math_round (height opts) = height opts"
    using assms(4,5) by (simp_all add: Math_round_int)
  have nz: "width opts \<noteq> 0" "height opts \<noteq> 0"
    using assms(2,3) by simp_all
  have a: "cw g = iw g \<and> ch g = ih g \<and> ix g = 0 \<and> iy g = 0"
    if "fit opts = ''outside'' \<or> fit opts = ''inside''"
    unfolding g using that nz by (rule resolveGeometry_snapped)
  have b: "cw g = width opts \<and> ch g = height opts"
    if "fit opts = ''contain''"
      and "\<not> noEnlarge opts \<or> width opts \<le> imageWidth g \<or> height opts \<le> imageHeight g"
    using resolveGeometry_contain [of opts "of_nat W" "of_nat H"] that assms(2,3) pos
    by (simp add: g [symmetric] wh int)
  have c: "cw g = width opts \<and> ch g = height opts"
    if "fit opts = ''cover''"
      and "\<not> noEnlarge opts \<or> (width opts \<le> imageWidth g \<and> height opts \<le> imageHeight g)"
    using resolveGeometry_cover [of opts "of_nat W" "of_nat H"] that assms(2,3) pos
    by (simp add: g [symmetric] wh int)
  from a b c show ?thesis by blast
qed

text \<open>
  Claim C5 as stated, without the condition on \<open>noEnlarge\<close>, fails: with
  \<open>noEnlarge\<close> set, a source of 50 by 50 and a target of 100 by 100, fit
  \<open>contain\<close> gives a canvas of 50 by 50, not the requested 100 by 100.
\<close>

theorem canvas_kept_counterexample:
  "fit \<lparr> type = JString ''image/jpeg'', alpha = False, width = 100, height = 100, quality = 1,
         xGravity = 0, yGravity = 0, fit = ''contain'', noEnlarge = True, smoothen = False,
         background = JUndefined \<rparr> = ''contain''
   \<and> validateImageFit (HTMLImageElement 50 50 0)
       \<lparr> type = JString ''image/jpeg'', alpha = False, width = 100, height = 100, quality = 1,
         xGravity = 0, yGravity = 0, fit = ''contain'', noEnlarge = True, smoothen = False,
         background = JUndefined \<rparr>
     = Inr \<lparr> imageWidth = 50, imageHeight = 50, cw = 50, ch = 50, iw = 50, ih = 50,
             ix = 0, iy = 0 \<rparr>
   \<and> cw \<lparr> imageWidth = 50, imageHeight = 50, cw = 50, ch = 50, iw = 50, ih = 50,
          ix = 0, iy = 0 \<rparr>
     \<noteq> width \<lparr> type = JString ''image/jpeg'', alpha = False, width = 100, height = 100,
          quality = 1, xGravity = 0, yGravity = 0, fit = ''contain'', noEnlarge = True,
          smoothen = False, background = JUndefined \<rparr>"
  by (simp add: geometry_defs)

text \<open>
  The two scenarios of the specification: a source of 200 by 100 and a target of 100 by
  100, with fit \<open>contain\<close> and with fit \<open>inside\<close>.
\<close>

theorem canvas_snapped_or_kept_witness:
  "validateImageFit (HTMLImageElement 200 100 0)
     (validateOptions decimalToNumber
        (Some (literal [(''width'', JNumber 100), (''height'', JNumber 100),
                        (''fit'', JString ''contain'')])))
     = Inr \<lparr> imageWidth = 200, imageHeight = 100, cw = 100, ch = 100, iw = 100, ih = 50,
             ix = 0, iy = 25 \<rparr>
   \<and> validateImageFit (HTMLImageElement 200 100 0)
     (validateOptions decimalToNumber
        (Some (literal [(''width'', JNumber 100), (''height'', JNumber 100),
                        (''fit'', JString ''inside'')])))
     = Inr \<lparr> imageWidth = 200, imageHeight = 100, cw = 100, ch = 50, iw = 100, ih = 50,
             ix = 0, iy = 0 \<rparr>
   \<and> width (validateOptions decimalToNumber
        (Some (literal [(''width'', JNumber 100), (''height'', JNumber 100),
                        (''fit'', JString ''contain'')]))) = 100
   \<and> fit (validateOptions decimalToNumber
        (Some (literal [(''width'', JNumber 100), (''height'', JNumber 100),
                        (''fit'', JString ''contain'')]))) = ''contain''
   \<and> fit (validateOptions decimalToNumber
        (Some (literal [(''width'', JNumber 100), (''height'', JNumber 100),
                        (''fit'', JString ''inside'')]))) = ''inside''
   \<and> \<not> noEnlarge (validateOptions decimalToNumber
        (Some (literal [(''width'', JNumber 100), (''height'', JNumber 100),
                        (''fit'', JString ''contain'')])))"
proof -
  let ?c = "validateOptions decimalToNumber
        (Some (literal [(''width'', JNumber 100), (''height'', JNumber 100),
                        (''fit'', JString ''contain'')]))"
  let ?i = "validateOptions decimalToNumber
        (Some (literal [(''width'', JNumber 100), (''height'', JNumber 100),
                        (''fit'', JString ''inside'')]))"
  have oc: "?c = \<lparr> type = JString ''image/jpeg'', alpha = True, width = 100, height = 100,
       quality = 1, xGravity = 0, yGravity = 0, fit = ''contain'', noEnlarge = False,
       smoothen = False, background = JUndefined \<rparr>"
    by (simp add: options_defs)
  have oi: "?i = \<lparr> type = JString ''image/jpeg'', alpha = True, width = 100, height = 100,
       quality = 1, xGravity = 0, yGravity = 0, fit = ''inside'', noEnlarge = False,
       smoothen = False, background = JUndefined \<rparr>"
    by (simp add: options_defs)
  have hc: "validateImageFit (HTMLImageElement 200 100 0) ?c
     = Inr \<lparr> imageWidth = 200, imageHeight = 100, cw = 100, ch = 100, iw = 100, ih = 50,
             ix = 0, iy = 25 \<rparr>"
    unfolding oc by (simp add: geometry_defs)
  have hi: "validateImageFit (HTMLImageElement 200 100 0) ?i
     = Inr \<lparr> imageWidth = 200, imageHeight = 100, cw = 100, ch = 50, iw = 100, ih = 50,
             ix = 0, iy = 0 \<rparr>"
    unfolding oi by (simp add: geometry_defs)
  have pc: "0 < width ?c" "0 < height ?c" "width ?c \<in> \<int>" "height ?c \<in> \<int>"
    unfolding oc by simp_all
  have pi: "0 < width ?i" "0 < height ?i" "width ?i \<in> \<int>" "height ?i \<in> \<int>"
    unfolding oi by simp_all
  from canvas_snapped_or_kept [OF hc pc] canvas_snapped_or_kept [OF hi pi] hc hi
  show ?thesis by (simp add: oc oi)
qed

section \<open>A missing target dimension\<close>











section \<open>What the normalizer drops or swaps\<close>

text \<open>
  Claim C3. The claim says that the alpha flag is false exactly when the defaulted output
  type is \<open>image/jpeg\<close>, so that options without a \<open>type\<close> give \<open>alpha = false\<close>.
  The code computes the flag from the raw \<open>type\<close> property: without a \<open>type\<close> the
  output type is \<open>image/jpeg\<close> and the flag is true.
\<close>

theorem alpha_ignores_default_type:
  "type (validateOptions s2n None) = JString ''image/jpeg''
   \<and> alpha (validateOptions s2n None) = True
   \<and> type (validateOptions s2n (Some (literal [(''width'', JNumber 100)]))) = JString ''image/jpeg''
   \<and> alpha (validateOptions s2n (Some (literal [(''width'', JNumber 100)]))) = True
   \<and> alpha (validateOptions s2n (Some (literal [(''type'', JString ''image/jpeg'')]))) = False
   \<and> alpha (validateOptions s2n raw) = (spread raw ''type'' \<noteq> JString ''image/jpeg'')"
  by (simp add: validateOptions_def spread_def literal_def empty_object_def typeSupportsAlpha_def
      Let_def)

text \<open>
  Claim C1. The claim says that \<open>north\<close>, \<open>south\<close>, \<open>top\<close> and \<open>bottom\<close>
  bias the vertical offset and \<open>east\<close>, \<open>west\<close>, \<open>left\<close> and \<open>right\<close>
  the horizontal one. In the code the result of \<open>getYGravity\<close> (north and south) is
  stored in \<open>xGravity\<close> and weighs \<open>ix\<close>, and the result of \<open>getXGravity\<close>
  (east and west) is stored in \<open>yGravity\<close> and weighs \<open>iy\<close>. On a source of
  200 by 100 placed in 100 by 100, where only the vertical offset is free, \<open>north\<close> and
  \<open>south\<close> both leave it centred at 25 and \<open>west\<close> moves it to 50; on a source of
  100 by 200, where only the horizontal offset is free, \<open>north\<close> gives 0, \<open>south\<close>
  gives 50 and \<open>west\<close> leaves it centred at 25.
\<close>

theorem gravity_axes_swapped:
  "validateImageFit (HTMLImageElement 200 100 0)
     (validateOptions s2n
        (Some (literal [(''width'', JNumber 100), (''height'', JNumber 100),
                        (''fit'', JString ''contain''), (''gravity'', JString ''north'')])))
     = Inr \<lparr> imageWidth = 200, imageHeight = 100, cw = 100, ch = 100, iw = 100, ih = 50,
             ix = 0, iy = 25 \<rparr>
   \<and> validateImageFit (HTMLImageElement 200 100 0)
     (validateOptions s2n
        (Some (literal [(''width'', JNumber 100), (''height'', JNumber 100),
                        (''fit'', JString ''contain''), (''gravity'', JString ''south'')])))
     = Inr \<lparr> imageWidth = 200, imageHeight = 100, cw = 100, ch = 100, iw = 100, ih = 50,
             ix = 0, iy = 25 \<rparr>
   \<and> validateImageFit (HTMLImageElement 200 100 0)
     (validateOptions s2n
        (Some (literal [(''width'', JNumber 100), (''height'', JNumber 100),
                        (''fit'', JString ''contain''), (''gravity'', JString ''west'')])))
     = Inr \<lparr> imageWidth = 200, imageHeight = 100, cw = 100, ch = 100, iw = 100, ih = 50,
             ix = 0, iy = 50 \<rparr>
   \<and> validateImageFit (HTMLImageElement 100 200 0)
     (validateOptions s2n
        (Some (literal [(''width'', JNumber 100), (''height'', JNumber 100),
                        (''fit'', JString ''contain''), (''gravity'', JString ''north'')])))
     = Inr \<lparr> imageWidth = 100, imageHeight = 200, cw = 100, ch = 100, iw = 50, ih = 100,
             ix = 0, iy = 0 \<rparr>
   \<and> validateImageFit (HTMLImageElement 100 200 0)
     (validateOptions s2n
        (Some (literal [(''width'', JNumber 100), (''height'', JNumber 100),
                        (''fit'', JString ''contain''), (''gravity'', JString ''south'')])))
     = Inr \<lparr> imageWidth = 100, imageHeight = 200, cw = 100, ch = 100, iw = 50, ih = 100,
             ix = 50, iy = 0 \<rparr>
   \<and> validateImageFit (HTMLImageElement 100 200 0)
     (validateOptions s2n
        (Some (literal [(''width'', JNumber 100), (''height'', JNumber 100),
                        (''fit'', JString ''contain''), (''gravity'', JString ''west'')])))
     = Inr \<lparr> imageWidth = 100, imageHeight = 200, cw = 100, ch = 100, iw = 50, ih = 100,
             ix = 25, iy = 0 \<rparr>
   \<and> xGravity (validateOptions s2n raw) = getYGravity (spread raw ''gravity'')
   \<and> yGravity (validateOptions s2n raw) = getXGravity (spread raw ''gravity'')"
  by (simp add: options_defs geometry_defs)

text \<open>
  Claim C2. The claim says that a \<open>background\<close> option reaches the canonical options
  and that the direct strategy fills the canvas with it before drawing. The object
  \<open>validateOptions\<close> returns never has a \<open>background\<close>, so on the options of the
  public operation \<open>renderToCanvas\<close> makes no \<open>fillRect\<close> call: the calls are the
  optional smoothing quality and the one \<open>drawImage\<close>. \<open>renderToCanvas\<close> itself does
  fill when it is handed options that carry a background.
\<close>

theorem background_never_filled:
  "background (validateOptions s2n raw) = JUndefined
   \<and> calls (renderToCanvas hst img g (validateOptions s2n raw))
       = (if smoothen (validateOptions s2n raw) \<and> has_imageSmoothingQuality hst
          then [SetImageSmoothingQuality ''high''] else [])
         @ [DrawImageScaled
              (if smoothen (validateOptions s2n raw)
               then (if has_filter hst then getBlurredImage img g (validateOptions s2n raw)
                     else getSteppedImage img g (validateOptions s2n raw))
               else img)
              (ix g) (iy g) (iw g) (ih g)]
   \<and> renderToCanvas browser (HTMLImageElement 200 100 0)
        \<lparr> imageWidth = 200, imageHeight = 100, cw = 100, ch = 100, iw = 100, ih = 50,
          ix = 0, iy = 25 \<rparr>
        (validateOptions s2n
           (Some (literal [(''width'', JNumber 100), (''height'', JNumber 100),
                           (''fit'', JString ''contain''), (''type'', JString ''image/png''),
                           (''background'', JString ''#ff0000'')])))
       = Canvas 100 100 True [DrawImageScaled (HTMLImageElement 200 100 0) 0 25 100 50]
   \<and> renderToCanvas browser (HTMLImageElement 200 100 0)
        \<lparr> imageWidth = 200, imageHeight = 100, cw = 100, ch = 100, iw = 100, ih = 50,
          ix = 0, iy = 25 \<rparr>
        ((validateOptions s2n
           (Some (literal [(''width'', JNumber 100), (''height'', JNumber 100),
                           (''fit'', JString ''contain''), (''type'', JString ''image/png''),
                           (''background'', JString ''#ff0000'')])))
         \<lparr> background := JString ''#ff0000'' \<rparr>)
       = Canvas 100 100 True
           [SetFillStyle (JString ''#ff0000''), FillRect 0 0 100 100,
            DrawImageScaled (HTMLImageElement 200 100 0) 0 25 100 50]"
proof -
  have b: "background (validateOptions s2n r) = JUndefined" for r
    by (simp add: validateOptions_def Let_def)
  have c: "calls (renderToCanvas hst img g (validateOptions s2n raw))
       = (if smoothen (validateOptions s2n raw) \<and> has_imageSmoothingQuality hst
          then [SetImageSmoothingQuality ''high''] else [])
         @ [DrawImageScaled
              (if smoothen (validateOptions s2n raw)
               then (if has_filter hst then getBlurredImage img g (validateOptions s2n raw)
                     else getSteppedImage img g (validateOptions s2n raw))
               else img)
              (ix g) (iy g) (iw g) (ih g)]"
    by (simp add: renderToCanvas_def Let_def b)
  let ?o = "validateOptions s2n
           (Some (literal [(''width'', JNumber 100), (''height'', JNumber 100),
                           (''fit'', JString ''contain''), (''type'', JString ''image/png''),
                           (''background'', JString ''#ff0000'')]))"
  have o: "?o = \<lparr> type = JString ''image/png'', alpha = True, width = 100, height = 100,
       quality = 1, xGravity = 0, yGravity = 0, fit = ''contain'', noEnlarge = False,
       smoothen = False, background = JUndefined \<rparr>"
    by (simp add: options_defs)
  have d: "renderToCanvas browser (HTMLImageElement 200 100 0)
        \<lparr> imageWidth = 200, imageHeight = 100, cw = 100, ch = 100, iw = 100, ih = 50,
          ix = 0, iy = 25 \<rparr> ?o
       = Canvas 100 100 True [DrawImageScaled (HTMLImageElement 200 100 0) 0 25 100 50]"
    unfolding o by (simp add: renderToCanvas_def setDimension_def Let_def)
  have e: "renderToCanvas browser (HTMLImageElement 200 100 0)
        \<lparr> imageWidth = 200, imageHeight = 100, cw = 100, ch = 100, iw = 100, ih = 50,
          ix = 0, iy = 25 \<rparr> (?o\<lparr> background := JString ''#ff0000'' \<rparr>)
       = Canvas 100 100 True
           [SetFillStyle (JString ''#ff0000''), FillRect 0 0 100 100,
            DrawImageScaled (HTMLImageElement 200 100 0) 0 25 100 50]"
    unfolding o by (simp add: renderToCanvas_def setDimension_def Let_def)
  from b c d e show ?thesis by (intro conjI)
qed

section \<open>The worker channel\<close>

lemma loadWebWorker_failed:
  "workerError st \<noteq> None \<Longrightarrow> loadWebWorker oc st = (Rejected (ResizeError ''Worker is not loaded''), st)"
  by (simp add: loadWebWorker_def)



lemma loadWebWorker_Resolved:
  assumes "loadWebWorker oc st = (Resolved w, st1)"
  shows "workerError st1 = None \<and> worker st1 = Some w \<and> messageId st1 = messageId st
       \<and> posted st1 = posted st \<and> workerError st = None"
  using assms
  by (auto simp: loadWebWorker_def Let_def split: if_splits option.splits sum.splits promise.splits)


lemma snd_fallback:
  "snd (case p of
          (Resolved b, st1) \<Rightarrow> (Resolved b, st1)
        | (Rejected err, st1) \<Rightarrow> (d, st1)
        | (Pending, st1) \<Rightarrow> (Pending, st1)) = snd p"
  by (cases p; cases "fst p") auto






lemma channelOf_simps:
  "(channelOf st = Uninitialized) = (workerError st = None \<and> worker st = None)"
  "(channelOf st = Ready w) = (workerError st = None \<and> worker st = Some w)"
  "(channelOf st = PermanentlyFailed e) = (workerError st = Some e)"
  by (auto simp: channelOf_def split: option.splits)


lemma render_fields:
  "workerError (snd (renderToBlobWithOffscreenCanvas hst oc st img g opts))
     = workerError (snd (loadWebWorker oc st))
   \<and> worker (snd (renderToBlobWithOffscreenCanvas hst oc st img g opts))
     = worker (snd (loadWebWorker oc st))
   \<and> spawnAttempts (snd (renderToBlobWithOffscreenCanvas hst oc st img g opts))
     = spawnAttempts (snd (loadWebWorker oc st))"
  by (cases "loadWebWorker oc st"; cases "fst (loadWebWorker oc st)")
    (auto simp: renderToBlobWithOffscreenCanvas_def Let_def split: promise.splits)

lemma render_channel:
  "channelOf (snd (renderToBlobWithOffscreenCanvas hst oc st img g opts))
     = channelOf (snd (loadWebWorker oc st))
   \<and> spawnAttempts (snd (renderToBlobWithOffscreenCanvas hst oc st img g opts))
     = spawnAttempts (snd (loadWebWorker oc st))"
  by (simp add: channelOf_def render_fields cong: option.case_cong)

lemma resize_reaches:
  assumes "validateImageAndMakeDrawable hst oc src (validateOptions (StringToNumber hst) raw) = Resolved img"
    and "validateImageFit img (validateOptions (StringToNumber hst) raw) = Inr g"
    and "has_OffscreenCanvas hst" and "workerError st = None"
  shows "snd (resizeImageToBlob hst oc st src raw)
       = snd (renderToBlobWithOffscreenCanvas hst oc st img g (validateOptions (StringToNumber hst) raw))"
  using assms by (simp add: resizeImageToBlob_def Let_def snd_fallback)




section \<open>Falling back to the direct strategy\<close>

lemma fst_fallback:
  "fst p = Rejected err \<Longrightarrow>
   fst (case p of
          (Resolved b, st1) \<Rightarrow> (Resolved b, st1)
        | (Rejected e, st1) \<Rightarrow> (d, st1)
        | (Pending, st1) \<Rightarrow> (Pending, st1)) = d"
  by (cases p) auto

lemma direct_without_offscreen:
  "validateImageAndMakeDrawable (hst\<lparr> has_OffscreenCanvas := False \<rparr>) oc src opts
     = validateImageAndMakeDrawable hst oc src opts
   \<and> renderDirect (hst\<lparr> has_OffscreenCanvas := False \<rparr>) img g opts = renderDirect hst img g opts"
  by (simp add: validateImageAndMakeDrawable_def renderDirect_def renderToCanvas_def
      getBlobFromCanvas_def split: source.splits)

text \<open>
  Claim C8. When the source resolves to a drawable, the geometry resolves, the worker
  strategy is selected, and it is rejected for this call, the public operation returns
  the promise of the direct strategy on the same drawable, geometry and options, which
  is also what the same call returns where \<open>OffscreenCanvas\<close> is not defined; the
  worker's error is not part of the result. If the worker was loaded (the bootstrap
  succeeded, in this call or before), the channel is ready afterwards.
\<close>

theorem worker_failure_falls_back:
  assumes "validateImageAndMakeDrawable hst oc src (validateOptions (StringToNumber hst) raw)
             = Resolved img"
    and "validateImageFit img (validateOptions (StringToNumber hst) raw) = Inr g"
    and "has_OffscreenCanvas hst" and "workerError st = None"
    and "fst (loadWebWorker oc st) = Resolved w"
    and "fst (renderToBlobWithOffscreenCanvas hst oc st img g
                (validateOptions (StringToNumber hst) raw)) = Rejected err"
  shows "fst (resizeImageToBlob hst oc st src raw)
           = renderDirect hst img g (validateOptions (StringToNumber hst) raw)
       \<and> fst (resizeImageToBlob hst oc st src raw)
           = fst (resizeImageToBlob (hst\<lparr> has_OffscreenCanvas := False \<rparr>) oc st src raw)
       \<and> channelOf (snd (resizeImageToBlob hst oc st src raw)) = Ready w"
proof -
  let ?opts = "validateOptions (StringToNumber hst) raw"
  have 1: "fst (resizeImageToBlob hst oc st src raw) = renderDirect hst img g ?opts"
    using assms(1-4) fst_fallback [OF assms(6)]
    by (simp add: resizeImageToBlob_def Let_def)
  have 2: "fst (resizeImageToBlob (hst\<lparr> has_OffscreenCanvas := False \<rparr>) oc st src raw)
           = renderDirect hst img g ?opts"
    using assms(1,2) by (simp add: resizeImageToBlob_def Let_def direct_without_offscreen)
  obtain st1 where l: "loadWebWorker oc st = (Resolved w, st1)"
    using assms(5) by (cases "loadWebWorker oc st") simp
  from loadWebWorker_Resolved [OF l]
  have "channelOf (snd (loadWebWorker oc st)) = Ready w"
    by (simp add: l channelOf_simps)
  then have 3: "channelOf (snd (resizeImageToBlob hst oc st src raw)) = Ready w"
    using resize_reaches [OF assms(1-4)] render_channel [of hst oc st img g ?opts] by simp
  from 1 2 3 show ?thesis by simp
qed

text \<open>
  A worker whose answer to the render request is an error: the call resolves with the
  blob of the direct strategy.
\<close>

theorem worker_failure_falls_back_witness:
  "validateImageAndMakeDrawable browser renderFails (SDrawable (HTMLImageElement 200 100 0))
       (validateOptions (StringToNumber browser)
          (Some (literal [(''width'', JNumber 100), (''height'', JNumber 50)])))
     = Resolved (HTMLImageElement 200 100 0)
   \<and> fst (renderToBlobWithOffscreenCanvas browser renderFails initialState
            (HTMLImageElement 200 100 0)
            \<lparr> imageWidth = 200, imageHeight = 100, cw = 100, ch = 50, iw = 100, ih = 50,
              ix = 0, iy = 0 \<rparr>
            (validateOptions (StringToNumber browser)
               (Some (literal [(''width'', JNumber 100), (''height'', JNumber 50)]))))
     = Rejected (HostError ''DataCloneError'')
   \<and> fst (resizeImageToBlob browser renderFails initialState
            (SDrawable (HTMLImageElement 200 100 0))
            (Some (literal [(''width'', JNumber 100), (''height'', JNumber 50)])))
     = Resolved [100, 50]
   \<and> channelOf (snd (resizeImageToBlob browser renderFails initialState
            (SDrawable (HTMLImageElement 200 100 0))
            (Some (literal [(''width'', JNumber 100), (''height'', JNumber 50)]))))
     = Ready 1"
proof -
  let ?raw = "Some (literal [(''width'', JNumber 100), (''height'', JNumber 50)])"
  let ?img = "HTMLImageElement 200 100 0"
  let ?g = "\<lparr> imageWidth = 200, imageHeight = 100, cw = 100, ch = 50, iw = 100, ih = 50,
              ix = 0, iy = 0 \<rparr>"
  have o: "validateOptions (StringToNumber browser) ?raw
      = \<lparr> type = JString ''image/jpeg'', alpha = True, width = 100, height = 50,
          quality = 1, xGravity = 0, yGravity = 0, fit = ''stretch'', noEnlarge = False,
          smoothen = False, background = JUndefined \<rparr>"
    by (simp add: options_defs browser_def)
  have h1: "validateImageAndMakeDrawable browser renderFails (SDrawable ?img)
       (validateOptions (StringToNumber browser) ?raw) = Resolved ?img"
    by (simp add: validateImageAndMakeDrawable_def)
  have h2: "validateImageFit ?img (validateOptions (StringToNumber browser) ?raw) = Inr ?g"
    unfolding o by (simp add: geometry_defs)
  have h3: "has_OffscreenCanvas browser" by (simp add: browser_def)
  have h4: "workerError initialState = None" by (simp add: initialState_def)
  have h5: "fst (loadWebWorker renderFails initialState) = Resolved 1"
    by (simp add: loadWebWorker_def initialState_def renderFails_def answers_def)
  have h6: "fst (renderToBlobWithOffscreenCanvas browser renderFails initialState ?img ?g
                (validateOptions (StringToNumber browser) ?raw))
            = Rejected (HostError ''DataCloneError'')"
    by (simp add: renderToBlobWithOffscreenCanvas_def loadWebWorker_def initialState_def
        renderFails_def answers_def browser_def)
  have d: "renderDirect browser ?img ?g (validateOptions (StringToNumber browser) ?raw)
           = Resolved [100, 50]"
    unfolding o
    by (simp add: renderDirect_def renderToCanvas_def getBlobFromCanvas_def setDimension_def
        browser_def sizeEncoder_def)
  from worker_failure_falls_back [OF h1 h2 h3 h4 h5 h6] h1 h6 d
  show ?thesis by simp
qed

end
